theory Spec2Isabelle
  imports Main
begin

section \<open>cpUtils.executeCommand: running an external command\<close>

text \<open>
  The source is \<^verbatim>\<open>src/utils/cpUtils.ts\<close>. \<^verbatim>\<open>executeCommand\<close> spawns a child process,
  registers four handlers on it (stdout data, stderr data, error, close) and awaits a
  promise that the handlers settle. Everything the function does to the outside is a call
  on a collaborator (\<^verbatim>\<open>cp.spawn\<close>, the output channel, \<^verbatim>\<open>resolve\<close>, \<^verbatim>\<open>reject\<close>);
  the model records these calls in the order in which they are made. What the child
  process does is an input of the model: either \<^verbatim>\<open>cp.spawn\<close> throws, or it returns a
  child whose events are delivered one after the other, each handler running to its end
  before the next event (JavaScript runs one callback at a time).
\<close>

subsection \<open>The host\<close>

text \<open>
  \<^verbatim>\<open>os.tmpdir()\<close>, \<^verbatim>\<open>os.EOL\<close> and the \<^verbatim>\<open>toString()\<close> of a chunk (\<^verbatim>\<open>string | Buffer\<close>)
  belong to the platform; they are parameters.
\<close>

record 'd host =
  tmpdir :: string
  EOL :: string
  toString :: "'d \<Rightarrow> string"

text \<open>\<^verbatim>\<open>cp.SpawnOptions\<close>, with the two fields the source sets.\<close>

record spawn_options =
  cwd :: string
  shell :: bool

text \<open>
  A JavaScript error value: one made by the runtime (the argument of the \<^verbatim>\<open>'error'\<close>
  event, or what \<^verbatim>\<open>cp.spawn\<close> throws), or \<^verbatim>\<open>new Error(message)\<close> made by the source.
\<close>

datatype 'x js_error = Raised 'x | Error string

text \<open>The calls the source makes on its collaborators.\<close>

datatype 'x call =
    Spawn string "string list" spawn_options
  | AppendLine string
  | Append string
  | Show
  | Resolve
  | Reject "'x js_error"

text \<open>The events of a \<^verbatim>\<open>cp.ChildProcess\<close> that the source listens to.\<close>

datatype ('d, 'x) event =
    StdoutData 'd
  | StderrData 'd
  | ErrorEvent 'x
  | CloseEvent int

text \<open>What \<^verbatim>\<open>cp.spawn\<close> does: it throws, or it returns a child that emits these events.\<close>

datatype ('d, 'x) child = SpawnThrows 'x | ChildProc "('d, 'x) event list"

text \<open>
  The outcome of the \<^verbatim>\<open>async\<close> function: still awaiting, returned a string, or threw
  (its promise is pending, fulfilled or rejected).
\<close>

datatype 'x outcome = Pending | Returned string | Thrown "'x js_error"

text \<open>
  The two accumulators of the source, the calls made so far (oldest first) and the
  outcome so far.
\<close>

record 'x state =
  cmdOutput :: string
  cmdOutputIncludingStderr :: string
  calls :: "'x call list"
  outcome :: "'x outcome"

subsection \<open>JavaScript primitives\<close>

text \<open>\<^verbatim>\<open>a || b\<close> on \<^verbatim>\<open>string | undefined\<close>: \<^verbatim>\<open>undefined\<close> and \<^verbatim>\<open>''\<close> are falsy.\<close>

definition orElse :: "string option \<Rightarrow> string \<Rightarrow> string" where
  "orElse a b = (case a of None \<Rightarrow> b | Some v \<Rightarrow> if v = [] then b else v)"

text \<open>\<^verbatim>\<open>Array.prototype.join\<close> on an array of strings.\<close>

fun join :: "string \<Rightarrow> string list \<Rightarrow> string" where
  "join sep [] = []"
| "join sep [x] = x"
| "join sep (x # y # ys) = x @ sep @ join sep (y # ys)"

text \<open>
  A template literal converts \<^verbatim>\<open>code: number\<close> with \<^verbatim>\<open>ToString\<close>; an exit code is an
  integer, which is written in decimal, with a minus sign when negative.
\<close>

definition digitChar :: "nat \<Rightarrow> char" where
  "digitChar n = ''0123456789'' ! n"

function digits :: "nat \<Rightarrow> string" where
  "digits n = (if n < 10 then [digitChar n] else digits (n div 10) @ [digitChar (n mod 10)])"
  by pat_completeness auto
termination
  by (relation "measure (\<lambda>n. n)") auto

declare digits.simps [simp del]

definition numberToString :: "int \<Rightarrow> string" where
  "numberToString i = (if i < 0 then CHR ''-'' # digits (nat (- i)) else digits (nat i))"

subsection \<open>The promise\<close>

text \<open>
  A call on a collaborator is appended to the calls made so far.
\<close>

definition call :: "'x call \<Rightarrow> 'x state \<Rightarrow> 'x state" where
  "call c s = s\<lparr>calls := calls s @ [c]\<rparr>"

text \<open>
  \<^verbatim>\<open>resolve()\<close> and \<^verbatim>\<open>reject(e)\<close> settle the awaited promise; only the first of them
  has an effect. After \<^verbatim>\<open>resolve()\<close> the function resumes behind the \<^verbatim>\<open>await\<close> as soon as
  the running handler has ended, before any other event is handled, and returns
  \<^verbatim>\<open>cmdOutput\<close> (line 65); no handler changes \<^verbatim>\<open>cmdOutput\<close> after calling \<^verbatim>\<open>resolve\<close>,
  so the value returned is the one at the call. After \<^verbatim>\<open>reject(e)\<close> the \<^verbatim>\<open>await\<close> throws
  \<^verbatim>\<open>e\<close>, which the function does not catch.
\<close>

definition resolve :: "'x state \<Rightarrow> 'x state" where
  "resolve s =
     (let s = call Resolve s
      in if outcome s = Pending then s\<lparr>outcome := Returned (cmdOutput s)\<rparr> else s)"

definition reject :: "'x js_error \<Rightarrow> 'x state \<Rightarrow> 'x state" where
  "reject e s =
     (let s = call (Reject e) s
      in if outcome s = Pending then s\<lparr>outcome := Thrown e\<rparr> else s)"

subsection \<open>The handlers\<close>

text \<open>Lines 27 to 34; \<open>outputChannel\<close> says whether the channel is defined.\<close>

definition onStdoutData :: "'d host \<Rightarrow> bool \<Rightarrow> 'd \<Rightarrow> 'x state \<Rightarrow> 'x state" where
  "onStdoutData h outputChannel data s =
     (let data = toString h data;
          s = s\<lparr>cmdOutput := cmdOutput s @ data\<rparr>;
          s = s\<lparr>cmdOutputIncludingStderr := cmdOutputIncludingStderr s @ data\<rparr>
      in if outputChannel then call (Append data) s else s)"

text \<open>Lines 36 to 42.\<close>

definition onStderrData :: "'d host \<Rightarrow> bool \<Rightarrow> 'd \<Rightarrow> 'x state \<Rightarrow> 'x state" where
  "onStderrData h outputChannel data s =
     (let data = toString h data;
          s = s\<lparr>cmdOutputIncludingStderr := cmdOutputIncludingStderr s @ data\<rparr>
      in if outputChannel then call (Append data) s else s)"

text \<open>The messages of lines 24, 52, 54 and 58.\<close>

definition runningMessage :: "string \<Rightarrow> string \<Rightarrow> string" where
  "runningMessage command formattedArgs =
     ''Running command: \"'' @ command @ '' '' @ formattedArgs @ ''\"...''"

definition failedMessage :: "string \<Rightarrow> string" where
  "failedMessage command =
     ''Failed to run \"'' @ command @ ''\" command. Check output window for more details.''"

definition exitCodeMessage :: "'d host \<Rightarrow> string \<Rightarrow> string \<Rightarrow> int \<Rightarrow> string \<Rightarrow> string" where
  "exitCodeMessage h command formattedArgs code output =
     ''Command \"'' @ command @ '' '' @ formattedArgs @ ''\" failed with exit code \"''
       @ numberToString code @ ''\":'' @ EOL h @ output"

definition finishedMessage :: "string \<Rightarrow> string \<Rightarrow> string" where
  "finishedMessage command formattedArgs =
     ''Finished running command: \"'' @ command @ '' '' @ formattedArgs @ ''\".''"

text \<open>Lines 45 to 62.\<close>

definition onClose ::
  "'d host \<Rightarrow> bool \<Rightarrow> string \<Rightarrow> string \<Rightarrow> int \<Rightarrow> 'x state \<Rightarrow> 'x state" where
  "onClose h outputChannel command formattedArgs code s =
     (if code \<noteq> 0 then
        (if outputChannel then
           (let s = call Show s
            in reject (Error (failedMessage command)) s)
         else
           reject (Error (exitCodeMessage h command formattedArgs code
                            (cmdOutputIncludingStderr s))) s)
      else
        (let s = (if outputChannel
                  then call (AppendLine (finishedMessage command formattedArgs)) s
                  else s)
         in resolve s))"

text \<open>
  One event reaches the handler registered for it; the handler of \<^verbatim>\<open>'error'\<close> is
  \<^verbatim>\<open>reject\<close> itself (line 44).
\<close>

fun emit ::
  "'d host \<Rightarrow> bool \<Rightarrow> string \<Rightarrow> string \<Rightarrow> ('d, 'x) event \<Rightarrow> 'x state \<Rightarrow> 'x state" where
  "emit h outputChannel command formattedArgs (StdoutData data) s =
     onStdoutData h outputChannel data s"
| "emit h outputChannel command formattedArgs (StderrData data) s =
     onStderrData h outputChannel data s"
| "emit h outputChannel command formattedArgs (ErrorEvent e) s =
     reject (Raised e) s"
| "emit h outputChannel command formattedArgs (CloseEvent code) s =
     onClose h outputChannel command formattedArgs code s"

text \<open>The events of the child, in the order of their arrival.\<close>

fun dispatch ::
  "'d host \<Rightarrow> bool \<Rightarrow> string \<Rightarrow> string \<Rightarrow> ('d, 'x) event list \<Rightarrow> 'x state \<Rightarrow> 'x state" where
  "dispatch h outputChannel command formattedArgs [] s = s"
| "dispatch h outputChannel command formattedArgs (e # es) s =
     dispatch h outputChannel command formattedArgs es
       (emit h outputChannel command formattedArgs e s)"

subsection \<open>executeCommand\<close>

text \<open>
  Lines 11 to 66. The executor of the promise runs at once: it calls \<^verbatim>\<open>cp.spawn\<close>
  (line 21), then writes the first line to the channel (lines 23 to 25), then registers
  the handlers. When \<^verbatim>\<open>cp.spawn\<close> throws, the executor ends there and the promise is
  rejected with what was thrown. The result is the final state: the accumulators, every
  call made, and the outcome of the function.
\<close>

definition executeCommand ::
  "'d host \<Rightarrow> ('d, 'x) child \<Rightarrow> bool \<Rightarrow> string option \<Rightarrow> string \<Rightarrow> string list \<Rightarrow> 'x state" where
  "executeCommand h childProc outputChannel workingDirectory command args =
     (let workingDirectory = orElse workingDirectory (tmpdir h);
          formattedArgs = join '' '' args;
          options = \<lparr>cwd = workingDirectory, shell = True\<rparr>;
          s = \<lparr>cmdOutput = [], cmdOutputIncludingStderr = [], calls = [], outcome = Pending\<rparr>;
          s = call (Spawn command args options) s
      in case childProc of
           SpawnThrows e \<Rightarrow> s\<lparr>outcome := Thrown (Raised e)\<rparr>
         | ChildProc events \<Rightarrow>
             (let s = (if outputChannel
                       then call (AppendLine (runningMessage command formattedArgs)) s
                       else s)
              in dispatch h outputChannel command formattedArgs events s))"

subsection \<open>Notions of the specification\<close>

text \<open>
  A data event carries a chunk of standard output or of standard error. The text of the
  standard-output chunks of a run, and the text of all its chunks, each in the order of
  arrival.
\<close>

fun isData :: "('d, 'x) event \<Rightarrow> bool" where
  "isData (StdoutData d) = True"
| "isData (StderrData d) = True"
| "isData (ErrorEvent e) = False"
| "isData (CloseEvent code) = False"

fun stdoutChunks :: "('d, 'x) event list \<Rightarrow> 'd list" where
  "stdoutChunks [] = []"
| "stdoutChunks (StdoutData d # es) = d # stdoutChunks es"
| "stdoutChunks (e # es) = stdoutChunks es"

fun allChunks :: "('d, 'x) event list \<Rightarrow> 'd list" where
  "allChunks [] = []"
| "allChunks (StdoutData d # es) = d # allChunks es"
| "allChunks (StderrData d # es) = d # allChunks es"
| "allChunks (e # es) = allChunks es"

definition stdoutText :: "'d host \<Rightarrow> ('d, 'x) event list \<Rightarrow> string" where
  "stdoutText h es = concat (map (toString h) (stdoutChunks es))"

definition combinedText :: "'d host \<Rightarrow> ('d, 'x) event list \<Rightarrow> string" where
  "combinedText h es = concat (map (toString h) (allChunks es))"

fun isSettle :: "'x call \<Rightarrow> bool" where
  "isSettle Resolve = True"
| "isSettle (Reject e) = True"
| "isSettle c = False"

fun isSpawn :: "'x call \<Rightarrow> bool" where
  "isSpawn (Spawn command args options) = True"
| "isSpawn c = False"

text \<open>
  In a sequence of calls, \<open>a\<close> is made before \<open>b\<close>: \<open>b\<close> is made after the first
  \<open>a\<close>.
\<close>

fun precedes :: "'a \<Rightarrow> 'a \<Rightarrow> 'a list \<Rightarrow> bool" where
  "precedes a b [] = False"
| "precedes a b (x # xs) = (if x = a then b \<in> set xs else precedes a b xs)"

text \<open>The value the function returned, if it returned.\<close>

definition returned :: "'x state \<Rightarrow> string option" where
  "returned s = (case outcome s of Returned v \<Rightarrow> Some v | _ \<Rightarrow> None)"

section \<open>Properties of the handlers\<close>

text \<open>What each handler does to each field of the state.\<close>


lemma call_fields [simp]:
  "cmdOutput (call c s) = cmdOutput s"
  "cmdOutputIncludingStderr (call c s) = cmdOutputIncludingStderr s"
  "calls (call c s) = calls s @ [c]"
  "outcome (call c s) = outcome s"
  by (simp_all add: call_def)

lemma resolve_fields [simp]:
  "cmdOutput (resolve s) = cmdOutput s"
  "cmdOutputIncludingStderr (resolve s) = cmdOutputIncludingStderr s"
  "calls (resolve s) = calls s @ [Resolve]"
  "outcome (resolve s) = (if outcome s = Pending then Returned (cmdOutput s) else outcome s)"
  by (simp_all add: resolve_def Let_def)

lemma reject_fields [simp]:
  "cmdOutput (reject e s) = cmdOutput s"
  "cmdOutputIncludingStderr (reject e s) = cmdOutputIncludingStderr s"
  "calls (reject e s) = calls s @ [Reject e]"
  "outcome (reject e s) = (if outcome s = Pending then Thrown e else outcome s)"
  by (simp_all add: reject_def Let_def)

lemma onStdoutData_fields [simp]:
  "cmdOutput (onStdoutData h oc d s) = cmdOutput s @ toString h d"
  "cmdOutputIncludingStderr (onStdoutData h oc d s) = cmdOutputIncludingStderr s @ toString h d"
  "calls (onStdoutData h oc d s) = calls s @ (if oc then [Append (toString h d)] else [])"
  "outcome (onStdoutData h oc d s) = outcome s"
  by (simp_all add: onStdoutData_def Let_def)

lemma onStderrData_fields [simp]:
  "cmdOutput (onStderrData h oc d s) = cmdOutput s"
  "cmdOutputIncludingStderr (onStderrData h oc d s) = cmdOutputIncludingStderr s @ toString h d"
  "calls (onStderrData h oc d s) = calls s @ (if oc then [Append (toString h d)] else [])"
  "outcome (onStderrData h oc d s) = outcome s"
  by (simp_all add: onStderrData_def Let_def)

lemma onClose_fields [simp]:
  "cmdOutput (onClose h oc cmd fa code s) = cmdOutput s"
  "cmdOutputIncludingStderr (onClose h oc cmd fa code s) = cmdOutputIncludingStderr s"
  by (simp_all add: onClose_def Let_def)

lemma onClose_calls:
  "calls (onClose h oc cmd fa code s) = calls s @
     (if code \<noteq> 0 then
        (if oc then [Show, Reject (Error (failedMessage cmd))]
         else [Reject (Error (exitCodeMessage h cmd fa code (cmdOutputIncludingStderr s)))])
      else (if oc then [AppendLine (finishedMessage cmd fa), Resolve] else [Resolve]))"
  by (simp add: onClose_def Let_def)

lemma onClose_outcome:
  "outcome (onClose h oc cmd fa code s) =
     (if outcome s \<noteq> Pending then outcome s
      else if code = 0 then Returned (cmdOutput s)
      else if oc then Thrown (Error (failedMessage cmd))
      else Thrown (Error (exitCodeMessage h cmd fa code (cmdOutputIncludingStderr s))))"
  by (simp add: onClose_def Let_def)

lemma dispatch_append:
  "dispatch h oc cmd fa (xs @ ys) s = dispatch h oc cmd fa ys (dispatch h oc cmd fa xs s)"
  by (induction xs arbitrary: s) simp_all

lemma cmdOutput_dispatch:
  "cmdOutput (dispatch h oc cmd fa es s) = cmdOutput s @ stdoutText h es"
proof (induction es arbitrary: s)
  case Nil
  show ?case by (simp add: stdoutText_def)
next
  case (Cons e es)
  show ?case by (cases e) (simp_all add: Cons.IH stdoutText_def)
qed

lemma cmdOutputIncludingStderr_dispatch:
  "cmdOutputIncludingStderr (dispatch h oc cmd fa es s) =
     cmdOutputIncludingStderr s @ combinedText h es"
proof (induction es arbitrary: s)
  case Nil
  show ?case by (simp add: combinedText_def)
next
  case (Cons e es)
  show ?case by (cases e) (simp_all add: Cons.IH combinedText_def)
qed

lemma outcome_dispatch_data:
  "list_all isData es \<Longrightarrow> outcome (dispatch h oc cmd fa es s) = outcome s"
proof (induction es arbitrary: s)
  case Nil
  show ?case by simp
next
  case (Cons e es)
  then show ?case by (cases e) simp_all
qed

lemma calls_dispatch_data:
  "list_all isData es \<Longrightarrow>
     calls (dispatch h oc cmd fa es s) =
       calls s @ (if oc then map (\<lambda>d. Append (toString h d)) (allChunks es) else [])"
proof (induction es arbitrary: s)
  case Nil
  show ?case by simp
next
  case (Cons e es)
  then show ?case by (cases e) simp_all
qed

lemma outcome_dispatch_settled:
  "outcome s \<noteq> Pending \<Longrightarrow> outcome (dispatch h oc cmd fa es s) = outcome s"
proof (induction es arbitrary: s)
  case Nil
  show ?case by simp
next
  case (Cons e es)
  then show ?case by (cases e) (simp_all add: onClose_outcome)
qed

lemma calls_dispatch_extends:
  "\<exists>ext. calls (dispatch h oc cmd fa es s) = calls s @ ext"
proof (induction es arbitrary: s)
  case Nil
  show ?case by simp
next
  case (Cons e es)
  obtain ext where "calls (dispatch h oc cmd fa es (emit h oc cmd fa e s)) =
      calls (emit h oc cmd fa e s) @ ext"
    using Cons.IH by blast
  then show ?case by (cases e) (simp_all add: onClose_calls)
qed

lemma spawn_calls_dispatch:
  "filter isSpawn (calls (dispatch h oc cmd fa es s)) = filter isSpawn (calls s)"
proof (induction es arbitrary: s)
  case Nil
  show ?case by simp
next
  case (Cons e es)
  show ?case by (cases e) (simp_all add: Cons.IH onClose_calls)
qed

lemma show_calls_dispatch:
  "Show \<in> set (calls (dispatch h oc cmd fa es s)) \<longleftrightarrow>
     Show \<in> set (calls s) \<or> (oc \<and> (\<exists>code. code \<noteq> 0 \<and> CloseEvent code \<in> set es))"
proof (induction es arbitrary: s)
  case Nil
  show ?case by simp
next
  case (Cons e es)
  show ?case by (cases e) (auto simp add: Cons.IH onClose_calls)
qed

lemma no_settle_data_calls:
  "\<not> list_ex isSettle (map (\<lambda>d. Append (toString h d)) ds)"
  by (induction ds) simp_all


lemma executeCommand_ChildProc:
  "executeCommand h (ChildProc es) oc wd command args =
     dispatch h oc command (join '' '' args) es
       \<lparr>cmdOutput = [], cmdOutputIncludingStderr = [],
        calls = Spawn command args \<lparr>cwd = orElse wd (tmpdir h), shell = True\<rparr> #
                  (if oc then [AppendLine (runningMessage command (join '' '' args))] else []),
        outcome = Pending\<rparr>"
  by (simp add: executeCommand_def Let_def call_def)

lemma executeCommand_SpawnThrows:
  "executeCommand h (SpawnThrows e) oc wd command args =
     \<lparr>cmdOutput = [], cmdOutputIncludingStderr = [],
      calls = [Spawn command args \<lparr>cwd = orElse wd (tmpdir h), shell = True\<rparr>],
      outcome = Thrown (Raised e)\<rparr>"
  by (simp add: executeCommand_def Let_def call_def)

lemma stdoutText_data_append [simp]:
  "stdoutText h (xs @ ys) = stdoutText h xs @ stdoutText h ys"
proof (induction xs)
  case Nil
  show ?case by (simp add: stdoutText_def)
next
  case (Cons e es)
  then show ?case by (cases e) (simp_all add: stdoutText_def)
qed

lemma calls_before_close:
  assumes "list_all isData pre"
  shows "calls (dispatch h oc command fa pre
            \<lparr>cmdOutput = [], cmdOutputIncludingStderr = [],
             calls = Spawn command args opts # (if oc then [AppendLine m] else []),
             outcome = Pending\<rparr>)
          = Spawn command args opts # (if oc then [AppendLine m] else [])
              @ (if oc then map (\<lambda>d. Append (toString h d)) (allChunks pre) else [])"
  using assms by (simp add: calls_dispatch_data)

lemma no_settle_before_close:
  "\<not> list_ex isSettle (Spawn command args opts # AppendLine m #
        map (\<lambda>d. Append (toString h d)) ds)"
  using no_settle_data_calls [of h ds] by simp

lemma outcome_after_error:
  assumes "list_all isData pre" and "outcome s = Pending"
  shows "outcome (dispatch h oc cmd fa (pre @ ErrorEvent e # post) s) = Thrown (Raised e)"
proof -
  let ?s1 = "dispatch h oc cmd fa pre s"
  have pending: "outcome ?s1 = Pending"
    using assms by (simp add: outcome_dispatch_data)
  have "outcome (dispatch h oc cmd fa post (reject (Raised e) ?s1))
      = outcome (reject (Raised e) ?s1)"
    by (rule outcome_dispatch_settled) (simp add: pending)
  then show ?thesis
    by (simp add: dispatch_append pending)
qed

lemma emit_sink_independent:
  assumes "cmdOutput s = cmdOutput t"
    and "(outcome s = Pending) = (outcome t = Pending)"
    and "returned s = returned t"
  shows "cmdOutput (emit h True cmd fa e s) = cmdOutput (emit h False cmd fa e t)
         \<and> (outcome (emit h True cmd fa e s) = Pending)
             = (outcome (emit h False cmd fa e t) = Pending)
         \<and> returned (emit h True cmd fa e s) = returned (emit h False cmd fa e t)"
  using assms by (cases e) (auto simp add: returned_def onClose_outcome)

lemma dispatch_sink_independent:
  assumes "cmdOutput s = cmdOutput t"
    and "(outcome s = Pending) = (outcome t = Pending)"
    and "returned s = returned t"
  shows "returned (dispatch h True cmd fa es s) = returned (dispatch h False cmd fa es t)"
  using assms
proof (induction es arbitrary: s t)
  case Nil
  then show ?case by simp
next
  case (Cons e es)
  have step: "cmdOutput (emit h True cmd fa e s) = cmdOutput (emit h False cmd fa e t)
         \<and> (outcome (emit h True cmd fa e s) = Pending)
             = (outcome (emit h False cmd fa e t) = Pending)
         \<and> returned (emit h True cmd fa e s) = returned (emit h False cmd fa e t)"
    using Cons.prems by (rule emit_sink_independent)
  have "returned (dispatch h True cmd fa es (emit h True cmd fa e s))
      = returned (dispatch h False cmd fa es (emit h False cmd fa e t))"
    using step by (intro Cons.IH) simp_all
  then show ?case by simp
qed

lemma built_error_calls_dispatch:
  "(\<exists>m. Reject (Error m) \<in> set (calls (dispatch h oc cmd fa es s)))
     = ((\<exists>m. Reject (Error m) \<in> set (calls s))
        \<or> (\<exists>code. code \<noteq> 0 \<and> CloseEvent code \<in> set es))"
proof (induction es arbitrary: s)
  case Nil
  show ?case by simp
next
  case (Cons e es)
  show ?case by (cases e) (auto simp add: Cons.IH onClose_calls)
qed

lemma no_close_in_data:
  "list_all isData pre \<Longrightarrow> CloseEvent code \<notin> set pre"
  by (induction pre) auto

lemma outcome_after_close:
  assumes "list_all isData pre" and "outcome s = Pending"
  shows "outcome (dispatch h oc cmd fa (pre @ CloseEvent code # post) s)
           = (if code = 0 then Returned (cmdOutput s @ stdoutText h pre)
              else if oc then Thrown (Error (failedMessage cmd))
              else Thrown (Error (exitCodeMessage h cmd fa code
                                    (cmdOutputIncludingStderr s @ combinedText h pre))))"
proof -
  let ?s1 = "dispatch h oc cmd fa pre s"
  let ?s2 = "onClose h oc cmd fa code ?s1"
  have pending: "outcome ?s1 = Pending"
    using assms by (simp add: outcome_dispatch_data)
  have settled: "outcome ?s2 \<noteq> Pending"
    by (simp add: onClose_outcome pending)
  have "outcome (dispatch h oc cmd fa post ?s2) = outcome ?s2"
    using settled by (rule outcome_dispatch_settled)
  then show ?thesis
    by (simp add: dispatch_append onClose_outcome pending cmdOutput_dispatch
        cmdOutputIncludingStderr_dispatch)
qed

section \<open>The claims\<close>

text \<open>
  In the claims below a run of a child that was spawned is \<open>pre @ e # post\<close>: the data
  events \<open>pre\<close>, then the first event \<open>e\<close> that is not data (the close or the error),
  then whatever the child emits afterwards (nothing after a close; after an error, the
  close with which the runtime ends a child that it could not spawn).
\<close>

text \<open>
  C1. When the process closes with exit code 0, the function returns exactly the
  concatenation of the texts of the standard-output chunks, in the order of their arrival;
  the chunks of standard error, wherever they arrive in between, are not part of it.
\<close>

theorem C1_resolves_with_stdout:
  assumes "list_all isData pre"
  shows "outcome (executeCommand h (ChildProc (pre @ CloseEvent 0 # post))
                    outputChannel workingDirectory command args)
           = Returned (concat (map (toString h) (stdoutChunks pre)))"
proof -
  let ?fa = "join '' '' args"
  let ?s0 = "\<lparr>cmdOutput = [], cmdOutputIncludingStderr = [],
        calls = Spawn command args \<lparr>cwd = orElse workingDirectory (tmpdir h), shell = True\<rparr> #
                  (if outputChannel then [AppendLine (runningMessage command ?fa)] else []),
        outcome = Pending\<rparr>"
  let ?s1 = "dispatch h outputChannel command ?fa pre ?s0"
  let ?s2 = "onClose h outputChannel command ?fa 0 ?s1"
  have pending: "outcome ?s1 = Pending"
    using assms by (simp add: outcome_dispatch_data)
  have out: "cmdOutput ?s1 = stdoutText h pre"
    by (simp add: cmdOutput_dispatch)
  have closed: "outcome ?s2 = Returned (stdoutText h pre)"
    by (simp add: onClose_outcome pending out)
  have "outcome (dispatch h outputChannel command ?fa post ?s2) = outcome ?s2"
    by (rule outcome_dispatch_settled) (simp add: closed)
  then show ?thesis
    by (simp add: executeCommand_ChildProc dispatch_append closed stdoutText_def)
qed

theorem C1_resolves_with_stdout_witness:
  "list_all isData [StdoutData ''ab'', StderrData ''xy'', StdoutData ''cd'' :: (string, nat) event] \<and>
   outcome (executeCommand \<lparr>tmpdir = ''/tmp'', EOL = [CHR 0x0A], toString = id\<rparr>
              (ChildProc [StdoutData ''ab'', StderrData ''xy'', StdoutData ''cd'', CloseEvent 0])
              False None ''echo'' [''hello''])
     = (Returned ''abcd'' :: nat outcome)"
  using C1_resolves_with_stdout [of "[StdoutData ''ab'', StderrData ''xy'', StdoutData ''cd'']"
      "\<lparr>tmpdir = ''/tmp'', EOL = [CHR 0x0A], toString = id\<rparr>" "[]" False None "''echo''" "[''hello'']"]
  by simp

text \<open>
  C2. Without an output channel, when the process closes with an exit code other than 0,
  the function throws an error whose message holds the command, the arguments joined by
  spaces, the exit code, then the line terminator of the platform, then the text of all
  chunks of standard output and standard error in the order of their arrival.
\<close>

theorem C2_rejects_with_details:
  assumes "list_all isData pre" and "code \<noteq> 0"
  shows "outcome (executeCommand h (ChildProc (pre @ CloseEvent code # post))
                    False workingDirectory command args)
           = Thrown (Error (''Command \"'' @ command @ '' '' @ join '' '' args
                              @ ''\" failed with exit code \"'' @ numberToString code @ ''\":''
                              @ EOL h @ concat (map (toString h) (allChunks pre))))"
proof -
  let ?fa = "join '' '' args"
  let ?s0 = "\<lparr>cmdOutput = [], cmdOutputIncludingStderr = [],
        calls = [Spawn command args \<lparr>cwd = orElse workingDirectory (tmpdir h), shell = True\<rparr>],
        outcome = Pending\<rparr>"
  let ?s1 = "dispatch h False command ?fa pre ?s0"
  let ?s2 = "onClose h False command ?fa code ?s1"
  have pending: "outcome ?s1 = Pending"
    using assms(1) by (simp add: outcome_dispatch_data)
  have out: "cmdOutputIncludingStderr ?s1 = combinedText h pre"
    by (simp add: cmdOutputIncludingStderr_dispatch)
  have closed: "outcome ?s2 = Thrown (Error (exitCodeMessage h command ?fa code (combinedText h pre)))"
    using assms(2) by (simp add: onClose_outcome pending out)
  have "outcome (dispatch h False command ?fa post ?s2) = outcome ?s2"
    by (rule outcome_dispatch_settled) (simp add: closed)
  then show ?thesis
    by (simp add: executeCommand_ChildProc dispatch_append closed exitCodeMessage_def
        combinedText_def)
qed

theorem C2_rejects_with_details_witness:
  "list_all isData [StdoutData ''ab'', StderrData ''boom'', StdoutData ''cd'' :: (string, nat) event] \<and>
   (2 :: int) \<noteq> 0 \<and>
   outcome (executeCommand \<lparr>tmpdir = ''/tmp'', EOL = [CHR 0x0A], toString = id\<rparr>
              (ChildProc [StdoutData ''ab'', StderrData ''boom'', StdoutData ''cd'', CloseEvent 2])
              False None ''run'' [''x'', ''y''])
     = (Thrown (Error (''Command \"run x y\" failed with exit code \"2\":'' @ [CHR 0x0A] @ ''abboomcd''))
          :: nat outcome)"
  using C2_rejects_with_details [of "[StdoutData ''ab'', StderrData ''boom'', StdoutData ''cd'']" 2
      "\<lparr>tmpdir = ''/tmp'', EOL = [CHR 0x0A], toString = id\<rparr>" "[]" None "''run''" "[''x'', ''y'']"]
  by (simp add: numberToString_def digits.simps digitChar_def)

text \<open>
  C3. With an output channel, when the process closes with an exit code other than 0, the
  function throws an error with exactly the message
  \<^verbatim>\<open>Failed to run "<command>" command. Check output window for more details.\<close>, and
  \<^verbatim>\<open>show()\<close> is called on the channel just before the promise is rejected with it: no
  call settles the promise earlier.
\<close>

theorem C3_shows_then_rejects:
  assumes "list_all isData pre" and "code \<noteq> 0"
  shows "outcome (executeCommand h (ChildProc (pre @ CloseEvent code # post))
                    True workingDirectory command args)
           = Thrown (Error (''Failed to run \"'' @ command
                              @ ''\" command. Check output window for more details.''))
         \<and> (\<exists>before after.
               calls (executeCommand h (ChildProc (pre @ CloseEvent code # post))
                        True workingDirectory command args)
                 = before @ [Show, Reject (Error (''Failed to run \"'' @ command
                              @ ''\" command. Check output window for more details.''))] @ after
               \<and> \<not> list_ex isSettle before)"
proof -
  let ?fa = "join '' '' args"
  let ?opts = "\<lparr>cwd = orElse workingDirectory (tmpdir h), shell = True\<rparr>"
  let ?s0 = "\<lparr>cmdOutput = [], cmdOutputIncludingStderr = [],
        calls = [Spawn command args ?opts, AppendLine (runningMessage command ?fa)],
        outcome = Pending\<rparr>"
  let ?s1 = "dispatch h True command ?fa pre ?s0"
  let ?s2 = "onClose h True command ?fa code ?s1"
  let ?before = "Spawn command args ?opts # AppendLine (runningMessage command ?fa) #
                   map (\<lambda>d. Append (toString h d)) (allChunks pre)"
  have run: "executeCommand h (ChildProc (pre @ CloseEvent code # post))
               True workingDirectory command args = dispatch h True command ?fa post ?s2"
    by (simp add: executeCommand_ChildProc dispatch_append)
  have pending: "outcome ?s1 = Pending"
    using assms(1) by (simp add: outcome_dispatch_data)
  have closed: "outcome ?s2 = Thrown (Error (failedMessage command))"
    using assms(2) by (simp add: onClose_outcome pending)
  have "outcome (dispatch h True command ?fa post ?s2) = outcome ?s2"
    by (rule outcome_dispatch_settled) (simp add: closed)
  then have thrown: "outcome (dispatch h True command ?fa post ?s2)
      = Thrown (Error (failedMessage command))"
    by (simp add: closed)
  have "calls ?s1 = ?before"
    using calls_before_close [OF assms(1), of h True command ?fa args ?opts
        "runningMessage command ?fa"]
    by simp
  then have at_close: "calls ?s2 = ?before @ [Show, Reject (Error (failedMessage command))]"
    using assms(2) by (simp add: onClose_calls)
  obtain after where "calls (dispatch h True command ?fa post ?s2) = calls ?s2 @ after"
    using calls_dispatch_extends by blast
  then have "calls (dispatch h True command ?fa post ?s2)
      = ?before @ [Show, Reject (Error (failedMessage command))] @ after"
    by (simp add: at_close)
  moreover have "\<not> list_ex isSettle ?before"
    by (rule no_settle_before_close)
  ultimately have "\<exists>before after. calls (dispatch h True command ?fa post ?s2)
      = before @ [Show, Reject (Error (failedMessage command))] @ after
      \<and> \<not> list_ex isSettle before"
    by blast
  with thrown show ?thesis
    unfolding run failedMessage_def by simp
qed

theorem C3_shows_then_rejects_witness:
  "list_all isData [StdoutData ''ab'', StderrData ''boom'' :: (string, nat) event] \<and>
   (1 :: int) \<noteq> 0 \<and>
   outcome (executeCommand \<lparr>tmpdir = ''/tmp'', EOL = [CHR 0x0A], toString = id\<rparr>
              (ChildProc [StdoutData ''ab'', StderrData ''boom'', CloseEvent 1])
              True None ''run'' [''x''])
     = (Thrown (Error ''Failed to run \"run\" command. Check output window for more details.'')
          :: nat outcome)"
proof -
  have a: "list_all isData [StdoutData ''ab'', StderrData ''boom'' :: (string, nat) event]"
    by simp
  have b: "(1 :: int) \<noteq> 0"
    by simp
  have "outcome (executeCommand \<lparr>tmpdir = ''/tmp'', EOL = [CHR 0x0A], toString = id\<rparr>
              (ChildProc ([StdoutData ''ab'', StderrData ''boom''] @ CloseEvent 1 # []))
              True None ''run'' [''x''])
     = (Thrown (Error (''Failed to run \"'' @ ''run''
                              @ ''\" command. Check output window for more details.''))
          :: nat outcome)"
    using C3_shows_then_rejects [OF a b] by (rule conjunct1)
  with a b show ?thesis
    by simp
qed

text \<open>
  C4. When the process cannot be spawned, the function throws the error of the runtime
  itself, unchanged: both when \<^verbatim>\<open>cp.spawn\<close> throws it and when the child emits it as
  its \<^verbatim>\<open>'error'\<close> event before any close, and whatever the child emits afterwards.
  When \<^verbatim>\<open>cp.spawn\<close> throws, the source builds no error message. The handler of the
  error event is \<^verbatim>\<open>reject\<close> and builds none either; in a run with the error event the
  source builds a message of its own exactly when a close with an exit code other than 0
  follows the error, and that message is passed to a promise that is settled already.
  A run whose first event after the data is a close with an exit code other than 0 is no
  such run: the function throws the message of the source, the generic one with a channel
  and the one with the exit code without. With \<^verbatim>\<open>shell: true\<close> (line 19) this is the run
  of an executable that is not found: the shell is spawned and exits with 127.
\<close>

theorem C4_spawn_error_unchanged:
  assumes "list_all isData pre" and "code \<noteq> 0"
  shows "outcome (executeCommand h (SpawnThrows e)
                    outputChannel workingDirectory command args) = Thrown (Raised e)
         \<and> \<not> (\<exists>m. Reject (Error m)
                  \<in> set (calls (executeCommand h (SpawnThrows e)
                                  outputChannel workingDirectory command args)))
         \<and> outcome (executeCommand h (ChildProc (pre @ ErrorEvent e # post))
                      outputChannel workingDirectory command args) = Thrown (Raised e)
         \<and> (\<exists>m. Reject (Error m)
                  \<in> set (calls (executeCommand h (ChildProc (pre @ ErrorEvent e # post))
                                  outputChannel workingDirectory command args)))
             = (\<exists>c. c \<noteq> 0 \<and> CloseEvent c \<in> set post)
         \<and> outcome (executeCommand h (ChildProc (pre @ CloseEvent code # post))
                      outputChannel workingDirectory command args)
             = Thrown (Error
                 (if outputChannel
                  then ''Failed to run \"'' @ command
                         @ ''\" command. Check output window for more details.''
                  else ''Command \"'' @ command @ '' '' @ join '' '' args
                         @ ''\" failed with exit code \"'' @ numberToString code @ ''\":''
                         @ EOL h @ concat (map (toString h) (allChunks pre))))"
proof -
  have thrown: "outcome (executeCommand h (SpawnThrows e)
                    outputChannel workingDirectory command args) = Thrown (Raised e)"
    by (simp add: executeCommand_SpawnThrows)
  have unbuilt: "\<not> (\<exists>m. Reject (Error m)
                  \<in> set (calls (executeCommand h (SpawnThrows e)
                                  outputChannel workingDirectory command args)))"
    by (simp add: executeCommand_SpawnThrows)
  have emitted: "outcome (executeCommand h (ChildProc (pre @ ErrorEvent e # post))
                      outputChannel workingDirectory command args) = Thrown (Raised e)"
    using assms(1) by (simp add: executeCommand_ChildProc outcome_after_error)
  have built: "(\<exists>m. Reject (Error m)
                  \<in> set (calls (executeCommand h (ChildProc (pre @ ErrorEvent e # post))
                                  outputChannel workingDirectory command args)))
             = (\<exists>c. c \<noteq> 0 \<and> CloseEvent c \<in> set post)"
    using no_close_in_data [OF assms(1)]
    by (simp add: executeCommand_ChildProc built_error_calls_dispatch)
  have closed: "outcome (executeCommand h (ChildProc (pre @ CloseEvent code # post))
                      outputChannel workingDirectory command args)
             = Thrown (Error
                 (if outputChannel
                  then ''Failed to run \"'' @ command
                         @ ''\" command. Check output window for more details.''
                  else ''Command \"'' @ command @ '' '' @ join '' '' args
                         @ ''\" failed with exit code \"'' @ numberToString code @ ''\":''
                         @ EOL h @ concat (map (toString h) (allChunks pre))))"
    using assms
    by (simp add: executeCommand_ChildProc outcome_after_close failedMessage_def
        exitCodeMessage_def combinedText_def)
  show ?thesis
    by (rule conjI [OF thrown conjI [OF unbuilt conjI [OF emitted conjI [OF built closed]]]])
qed

theorem C4_spawn_error_unchanged_witness:
  "list_all isData [StderrData ''warn'' :: (string, nat) event] \<and>
   (127 :: int) \<noteq> 0 \<and>
   outcome (executeCommand \<lparr>tmpdir = ''/tmp'', EOL = [CHR 0x0A], toString = id\<rparr>
              (ChildProc [StderrData ''warn'', ErrorEvent 7, CloseEvent (- 2)])
              False (Some ''/nowhere'') ''run'' [''x''])
     = (Thrown (Raised 7) :: nat outcome)"
proof -
  have a: "list_all isData [StderrData ''warn'' :: (string, nat) event]"
    by simp
  have b: "(127 :: int) \<noteq> 0"
    by simp
  have "outcome (executeCommand \<lparr>tmpdir = ''/tmp'', EOL = [CHR 0x0A], toString = id\<rparr>
              (ChildProc ([StderrData ''warn''] @ ErrorEvent 7 # [CloseEvent (- 2)]))
              False (Some ''/nowhere'') ''run'' [''x''])
     = (Thrown (Raised 7) :: nat outcome)"
    using C4_spawn_error_unchanged [OF a b, THEN conjunct2, THEN conjunct2, THEN conjunct1] .
  with a b show ?thesis
    by simp
qed

text \<open>
  Two runs without a channel. The executable \<^verbatim>\<open>nosuchcmd\<close> is not found: the process
  is started through the shell, which reports it on standard error and exits with 127, and
  the function throws the exit-code message, not a spawn error. The working directory
  \<^verbatim>\<open>/nowhere\<close> does not exist: the runtime emits \<^verbatim>\<open>'error'\<close> and then closes the child
  with the negative error number -2 as exit code; the function throws the error of the
  runtime, and the handler of \<^verbatim>\<open>'close'\<close>, still registered, builds the exit-code
  message.
\<close>

theorem C4_spawn_error_counterexample:
  "Spawn ''nosuchcmd'' [''x''] \<lparr>cwd = ''/tmp'', shell = True\<rparr>
     \<in> set (calls (executeCommand \<lparr>tmpdir = ''/tmp'', EOL = [CHR 0x0A], toString = id\<rparr>
                     (ChildProc [StderrData ''/bin/sh: nosuchcmd: not found'', CloseEvent 127])
                     False None ''nosuchcmd'' [''x''] :: nat state))
   \<and> outcome (executeCommand \<lparr>tmpdir = ''/tmp'', EOL = [CHR 0x0A], toString = id\<rparr>
                (ChildProc [StderrData ''/bin/sh: nosuchcmd: not found'', CloseEvent 127])
                False None ''nosuchcmd'' [''x''])
       = (Thrown (Error (''Command \"nosuchcmd x\" failed with exit code \"127\":'' @ [CHR 0x0A]
                           @ ''/bin/sh: nosuchcmd: not found'')) :: nat outcome)
   \<and> outcome (executeCommand \<lparr>tmpdir = ''/tmp'', EOL = [CHR 0x0A], toString = id\<rparr>
                (ChildProc [ErrorEvent 7, CloseEvent (- 2)])
                False (Some ''/nowhere'') ''run'' [''x''])
       = (Thrown (Raised 7) :: nat outcome)
   \<and> Reject (Error (''Command \"run x\" failed with exit code \"-2\":'' @ [CHR 0x0A]))
       \<in> set (calls (executeCommand \<lparr>tmpdir = ''/tmp'', EOL = [CHR 0x0A], toString = id\<rparr>
                       (ChildProc [ErrorEvent 7, CloseEvent (- 2)])
                       False (Some ''/nowhere'') ''run'' [''x''] :: nat state))"
  by (simp add: executeCommand_ChildProc onClose_calls onClose_outcome exitCodeMessage_def
      numberToString_def digits.simps digitChar_def orElse_def)

text \<open>
  C5. When \<^verbatim>\<open>workingDirectory\<close> is \<^verbatim>\<open>undefined\<close>, the function starts one process, and
  starts it with \<^verbatim>\<open>cwd\<close> equal to \<^verbatim>\<open>os.tmpdir()\<close> (and \<^verbatim>\<open>shell: true\<close>).
\<close>

theorem C5_default_working_directory:
  "filter isSpawn (calls (executeCommand h childProc outputChannel None command args))
     = [Spawn command args \<lparr>cwd = tmpdir h, shell = True\<rparr>]"
proof (cases childProc)
  case (SpawnThrows e)
  then show ?thesis
    by (simp add: executeCommand_SpawnThrows orElse_def)
next
  case (ChildProc es)
  then show ?thesis
    by (simp add: executeCommand_ChildProc spawn_calls_dispatch orElse_def)
qed

text \<open>
  C6. With an output channel, when the process closes with exit code 0, the line
  \<^verbatim>\<open>Finished running command: "<command> <args>".\<close> is appended to the channel, just
  before the promise is resolved (no call settles it earlier), and the function returns
  the text of the standard-output chunks alone.
\<close>

theorem C6_finished_line_and_stdout:
  assumes "list_all isData pre"
  shows "outcome (executeCommand h (ChildProc (pre @ CloseEvent 0 # post))
                    True workingDirectory command args)
           = Returned (concat (map (toString h) (stdoutChunks pre)))
         \<and> (\<exists>before after.
               calls (executeCommand h (ChildProc (pre @ CloseEvent 0 # post))
                        True workingDirectory command args)
                 = before @ [AppendLine (''Finished running command: \"'' @ command @ '' ''
                                           @ join '' '' args @ ''\".''), Resolve] @ after
               \<and> \<not> list_ex isSettle before)"
proof -
  let ?fa = "join '' '' args"
  let ?opts = "\<lparr>cwd = orElse workingDirectory (tmpdir h), shell = True\<rparr>"
  let ?s0 = "\<lparr>cmdOutput = [], cmdOutputIncludingStderr = [],
        calls = [Spawn command args ?opts, AppendLine (runningMessage command ?fa)],
        outcome = Pending\<rparr>"
  let ?s1 = "dispatch h True command ?fa pre ?s0"
  let ?s2 = "onClose h True command ?fa 0 ?s1"
  let ?before = "Spawn command args ?opts # AppendLine (runningMessage command ?fa) #
                   map (\<lambda>d. Append (toString h d)) (allChunks pre)"
  have run: "executeCommand h (ChildProc (pre @ CloseEvent 0 # post))
               True workingDirectory command args = dispatch h True command ?fa post ?s2"
    by (simp add: executeCommand_ChildProc dispatch_append)
  have pending: "outcome ?s1 = Pending"
    using assms by (simp add: outcome_dispatch_data)
  have out: "cmdOutput ?s1 = stdoutText h pre"
    by (simp add: cmdOutput_dispatch)
  have closed: "outcome ?s2 = Returned (stdoutText h pre)"
    by (simp add: onClose_outcome pending out)
  have "outcome (dispatch h True command ?fa post ?s2) = outcome ?s2"
    by (rule outcome_dispatch_settled) (simp add: closed)
  then have returns: "outcome (dispatch h True command ?fa post ?s2)
      = Returned (stdoutText h pre)"
    by (simp add: closed)
  have "calls ?s1 = ?before"
    using calls_before_close [OF assms, of h True command ?fa args ?opts
        "runningMessage command ?fa"]
    by simp
  then have at_close:
    "calls ?s2 = ?before @ [AppendLine (finishedMessage command ?fa), Resolve]"
    by (simp add: onClose_calls)
  obtain after where "calls (dispatch h True command ?fa post ?s2) = calls ?s2 @ after"
    using calls_dispatch_extends by blast
  then have "calls (dispatch h True command ?fa post ?s2)
      = ?before @ [AppendLine (finishedMessage command ?fa), Resolve] @ after"
    by (simp add: at_close)
  moreover have "\<not> list_ex isSettle ?before"
    by (rule no_settle_before_close)
  ultimately have "\<exists>before after. calls (dispatch h True command ?fa post ?s2)
      = before @ [AppendLine (finishedMessage command ?fa), Resolve] @ after
      \<and> \<not> list_ex isSettle before"
    by blast
  with returns show ?thesis
    unfolding run finishedMessage_def stdoutText_def by simp
qed

theorem C6_finished_line_and_stdout_witness:
  "list_all isData [StdoutData ''ab'', StderrData ''warn'', StdoutData ''cd'' :: (string, nat) event] \<and>
   outcome (executeCommand \<lparr>tmpdir = ''/tmp'', EOL = [CHR 0x0A], toString = id\<rparr>
              (ChildProc [StdoutData ''ab'', StderrData ''warn'', StdoutData ''cd'', CloseEvent 0])
              True None ''run'' [''x'', ''y''])
     = (Returned ''abcd'' :: nat outcome)"
proof -
  have a: "list_all isData [StdoutData ''ab'', StderrData ''warn'', StdoutData ''cd'' :: (string, nat) event]"
    by simp
  have "outcome (executeCommand \<lparr>tmpdir = ''/tmp'', EOL = [CHR 0x0A], toString = id\<rparr>
              (ChildProc ([StdoutData ''ab'', StderrData ''warn'', StdoutData ''cd''] @ CloseEvent 0 # []))
              True None ''run'' [''x'', ''y''])
     = (Returned (concat (map id (stdoutChunks
          [StdoutData ''ab'', StderrData ''warn'', StdoutData ''cd'' :: (string, nat) event]))) :: nat outcome)"
    using C6_finished_line_and_stdout [OF a, THEN conjunct1,
        of "\<lparr>tmpdir = ''/tmp'', EOL = [CHR 0x0A], toString = id\<rparr>"] by simp
  with a show ?thesis
    by simp
qed

text \<open>
  C7. With an output channel, the line \<^verbatim>\<open>Running command: "<command> <args>"...\<close> is
  the first thing written to the channel, and it is written right after the call of
  \<^verbatim>\<open>cp.spawn\<close> that starts the process (line 21 comes before line 24), before any event
  of the process is handled. When \<^verbatim>\<open>cp.spawn\<close> throws, nothing is written.
\<close>

theorem C7_running_line_follows_spawn:
  "take 2 (calls (executeCommand h (ChildProc events) True workingDirectory command args))
     = [Spawn command args \<lparr>cwd = orElse workingDirectory (tmpdir h), shell = True\<rparr>,
        AppendLine (''Running command: \"'' @ command @ '' '' @ join '' '' args @ ''\"...'')]
   \<and> calls (executeCommand h (SpawnThrows e) True workingDirectory command args)
     = [Spawn command args \<lparr>cwd = orElse workingDirectory (tmpdir h), shell = True\<rparr>]"
proof -
  let ?fa = "join '' '' args"
  let ?opts = "\<lparr>cwd = orElse workingDirectory (tmpdir h), shell = True\<rparr>"
  let ?s0 = "\<lparr>cmdOutput = [], cmdOutputIncludingStderr = [],
        calls = [Spawn command args ?opts, AppendLine (runningMessage command ?fa)],
        outcome = Pending\<rparr>"
  obtain ext where "calls (dispatch h True command ?fa events ?s0) = calls ?s0 @ ext"
    using calls_dispatch_extends by blast
  then have "take 2 (calls (dispatch h True command ?fa events ?s0))
      = [Spawn command args ?opts, AppendLine (runningMessage command ?fa)]"
    by simp
  then show ?thesis
    by (simp add: executeCommand_ChildProc executeCommand_SpawnThrows runningMessage_def)
qed

text \<open>
  The claim as the specification words it, the line before the start of the process,
  fails on every run with a channel; here on \<^verbatim>\<open>echo hello\<close>.
\<close>

theorem C7_running_line_before_spawn_counterexample:
  "\<not> precedes (AppendLine ''Running command: \"echo hello\"...'')
       (Spawn ''echo'' [''hello''] \<lparr>cwd = ''/tmp'', shell = True\<rparr>)
       (calls (executeCommand \<lparr>tmpdir = ''/tmp'', EOL = [CHR 0x0A], toString = id\<rparr>
                 (ChildProc [StdoutData ''hello'', CloseEvent 0])
                 True None ''echo'' [''hello''] :: nat state))"
  by (simp add: executeCommand_ChildProc onClose_calls runningMessage_def finishedMessage_def
      orElse_def)

text \<open>
  C8. Two runs that differ only in the presence of the output channel accumulate the same
  standard-output text, namely the text of all standard-output chunks, whether or not a
  channel is there to show it. When the process closes with exit code 0, both runs return,
  and both return the text of the chunks that arrived before the close; in every run, what
  one of them returns, if it returns, is what the other returns.
\<close>

theorem C8_result_sink_independent:
  assumes "list_all isData pre"
  shows "cmdOutput (executeCommand h childProc True workingDirectory command args)
     = cmdOutput (executeCommand h childProc False workingDirectory command args)
   \<and> returned (executeCommand h childProc True workingDirectory command args)
     = returned (executeCommand h childProc False workingDirectory command args)
   \<and> cmdOutput (executeCommand h (ChildProc events) outputChannel workingDirectory command args)
     = concat (map (toString h) (stdoutChunks events))
   \<and> outcome (executeCommand h (ChildProc (pre @ CloseEvent 0 # post))
                True workingDirectory command args)
     = Returned (concat (map (toString h) (stdoutChunks pre)))
   \<and> outcome (executeCommand h (ChildProc (pre @ CloseEvent 0 # post))
                False workingDirectory command args)
     = Returned (concat (map (toString h) (stdoutChunks pre)))"
proof -
  let ?fa = "join '' '' args"
  let ?opts = "\<lparr>cwd = orElse workingDirectory (tmpdir h), shell = True\<rparr>"
  have same_output: "cmdOutput (executeCommand h childProc True workingDirectory command args)
     = cmdOutput (executeCommand h childProc False workingDirectory command args)"
    by (cases childProc)
      (simp_all add: executeCommand_SpawnThrows executeCommand_ChildProc cmdOutput_dispatch)
  have same_value: "returned (executeCommand h childProc True workingDirectory command args)
     = returned (executeCommand h childProc False workingDirectory command args)"
  proof (cases childProc)
    case (SpawnThrows e)
    then show ?thesis
      by (simp add: executeCommand_SpawnThrows)
  next
    case (ChildProc es)
    let ?s = "\<lparr>cmdOutput = [], cmdOutputIncludingStderr = [],
          calls = [Spawn command args ?opts, AppendLine (runningMessage command ?fa)],
          outcome = Pending\<rparr>"
    let ?t = "\<lparr>cmdOutput = [], cmdOutputIncludingStderr = [],
          calls = [Spawn command args ?opts], outcome = Pending\<rparr>"
    have "returned (dispatch h True command ?fa es ?s)
        = returned (dispatch h False command ?fa es ?t)"
      by (rule dispatch_sink_independent) (simp_all add: returned_def)
    with ChildProc show ?thesis
      by (simp add: executeCommand_ChildProc)
  qed
  have collected: "cmdOutput (executeCommand h (ChildProc events) outputChannel
                     workingDirectory command args)
     = concat (map (toString h) (stdoutChunks events))"
    by (simp add: executeCommand_ChildProc cmdOutput_dispatch stdoutText_def)
  have with_sink: "outcome (executeCommand h (ChildProc (pre @ CloseEvent 0 # post))
                True workingDirectory command args)
     = Returned (concat (map (toString h) (stdoutChunks pre)))"
    using assms by (simp add: executeCommand_ChildProc outcome_after_close stdoutText_def)
  have without_sink: "outcome (executeCommand h (ChildProc (pre @ CloseEvent 0 # post))
                False workingDirectory command args)
     = Returned (concat (map (toString h) (stdoutChunks pre)))"
    using assms by (simp add: executeCommand_ChildProc outcome_after_close stdoutText_def)
  show ?thesis
    by (rule conjI [OF same_output conjI [OF same_value conjI [OF collected
        conjI [OF with_sink without_sink]]]])
qed

theorem C8_result_sink_independent_witness:
  "list_all isData [StdoutData ''ab'', StderrData ''xy'', StdoutData ''cd'' :: (string, nat) event] \<and>
   outcome (executeCommand \<lparr>tmpdir = ''/tmp'', EOL = [CHR 0x0A], toString = id\<rparr>
              (ChildProc [StdoutData ''ab'', StderrData ''xy'', StdoutData ''cd'', CloseEvent 0])
              True None ''echo'' [''hello''])
     = (Returned ''abcd'' :: nat outcome) \<and>
   outcome (executeCommand \<lparr>tmpdir = ''/tmp'', EOL = [CHR 0x0A], toString = id\<rparr>
              (ChildProc [StdoutData ''ab'', StderrData ''xy'', StdoutData ''cd'', CloseEvent 0])
              False None ''echo'' [''hello''])
     = (Returned ''abcd'' :: nat outcome)"
proof -
  let ?h = "\<lparr>tmpdir = ''/tmp'', EOL = [CHR 0x0A], toString = id\<rparr> :: string host"
  have a: "list_all isData [StdoutData ''ab'', StderrData ''xy'', StdoutData ''cd'' :: (string, nat) event]"
    by simp
  note run = C8_result_sink_independent [OF a, of ?h _ _ _ _ _ _ "[]", THEN conjunct2,
      THEN conjunct2, THEN conjunct2]
  have "outcome (executeCommand ?h
              (ChildProc ([StdoutData ''ab'', StderrData ''xy'', StdoutData ''cd''] @ CloseEvent 0 # []))
              True None ''echo'' [''hello''])
     = (Returned ''abcd'' :: nat outcome)"
    using run [THEN conjunct1] by simp
  moreover have "outcome (executeCommand ?h
              (ChildProc ([StdoutData ''ab'', StderrData ''xy'', StdoutData ''cd''] @ CloseEvent 0 # []))
              False None ''echo'' [''hello''])
     = (Returned ''abcd'' :: nat outcome)"
    using run [THEN conjunct2] by simp
  ultimately show ?thesis
    using a by simp
qed

text \<open>
  C9. The empty string as \<^verbatim>\<open>workingDirectory\<close> is treated as \<^verbatim>\<open>undefined\<close> is: the run
  is the same in every respect, and the process is started in \<^verbatim>\<open>os.tmpdir()\<close>.
\<close>

theorem C9_empty_working_directory:
  "executeCommand h childProc outputChannel (Some []) command args
     = executeCommand h childProc outputChannel None command args
   \<and> filter isSpawn (calls (executeCommand h childProc outputChannel (Some []) command args))
       = [Spawn command args \<lparr>cwd = tmpdir h, shell = True\<rparr>]"
proof -
  have same: "executeCommand h childProc outputChannel (Some []) command args
     = executeCommand h childProc outputChannel None command args"
    by (simp add: executeCommand_def orElse_def)
  have "filter isSpawn (calls (executeCommand h childProc outputChannel None command args))
     = [Spawn command args \<lparr>cwd = tmpdir h, shell = True\<rparr>]"
  proof (cases childProc)
    case (SpawnThrows e)
    then show ?thesis
      by (simp add: executeCommand_SpawnThrows orElse_def)
  next
    case (ChildProc es)
    then show ?thesis
      by (simp add: executeCommand_ChildProc spawn_calls_dispatch orElse_def)
  qed
  with same show ?thesis
    by simp
qed

text \<open>
  C10. \<^verbatim>\<open>show()\<close> is called on the channel in exactly one case: the channel is defined
  and the handler of \<^verbatim>\<open>'close'\<close> runs with an exit code other than 0. So it is never
  called without a channel, never in a run whose closes all have exit code 0, never by
  the handler of \<^verbatim>\<open>'error'\<close>, and never when \<^verbatim>\<open>cp.spawn\<close> throws.
\<close>

theorem C10_show_only_on_failed_close:
  "(Show \<in> set (calls (executeCommand h childProc outputChannel workingDirectory command args)))
     = (outputChannel \<and>
        (\<exists>es code. childProc = ChildProc es \<and> code \<noteq> 0 \<and> CloseEvent code \<in> set es))"
proof (cases childProc)
  case (SpawnThrows e)
  then show ?thesis
    by (simp add: executeCommand_SpawnThrows)
next
  case (ChildProc es)
  then show ?thesis
    by (simp add: executeCommand_ChildProc show_calls_dispatch)
qed

theorem C10_show_only_on_failed_close_witness:
  "Show \<notin> set (calls (executeCommand \<lparr>tmpdir = ''/tmp'', EOL = [CHR 0x0A], toString = id\<rparr>
                 (ChildProc [StdoutData ''hello'', StderrData ''warn'', CloseEvent 0])
                 True None ''echo'' [''hello''] :: nat state))
   \<and> Show \<notin> set (calls (executeCommand \<lparr>tmpdir = ''/tmp'', EOL = [CHR 0x0A], toString = id\<rparr>
                 (ChildProc [StderrData ''warn'', ErrorEvent 7])
                 True None ''echo'' [''hello''] :: nat state))
   \<and> Show \<notin> set (calls (executeCommand \<lparr>tmpdir = ''/tmp'', EOL = [CHR 0x0A], toString = id\<rparr>
                 (ChildProc [StderrData ''boom'', CloseEvent 2])
                 False None ''echo'' [''hello''] :: nat state))
   \<and> Show \<in> set (calls (executeCommand \<lparr>tmpdir = ''/tmp'', EOL = [CHR 0x0A], toString = id\<rparr>
                 (ChildProc [StderrData ''boom'', CloseEvent 2])
                 True None ''echo'' [''hello''] :: nat state))"
  by (simp add: C10_show_only_on_failed_close)

text \<open>
  After a spawn error the handler of \<^verbatim>\<open>'close'\<close> runs with the negative error number
  as exit code: with a channel it calls \<^verbatim>\<open>show()\<close>, although the function throws the
  error of the runtime.
\<close>

theorem C10_show_after_spawn_error_counterexample:
  "outcome (executeCommand \<lparr>tmpdir = ''/tmp'', EOL = [CHR 0x0A], toString = id\<rparr>
              (ChildProc [ErrorEvent 7, CloseEvent (- 2)])
              True (Some ''/nowhere'') ''run'' [''x''])
     = (Thrown (Raised 7) :: nat outcome)
   \<and> Show \<in> set (calls (executeCommand \<lparr>tmpdir = ''/tmp'', EOL = [CHR 0x0A], toString = id\<rparr>
                       (ChildProc [ErrorEvent 7, CloseEvent (- 2)])
                       True (Some ''/nowhere'') ''run'' [''x''] :: nat state))"
  by (simp add: executeCommand_ChildProc onClose_calls onClose_outcome orElse_def)

end
